theory Spec2Isabelle
  imports Complex_Main
begin

section \<open>Projection-matrix retrieval notebook: a shallow embedding\<close>

text \<open>
  The notebook \<^verbatim>\<open>exercise.ipynb\<close> embeds texts with a sentence-transformer model, scores
  query/snippet pairs by a dot product (optionally through a projection matrix \<open>P\<close>), builds
  labelled pairs from a dataset, trains \<open>P\<close> with Adam, ranks all snippets for a query and
  evaluates the ranking with mean average precision.

  Conventions of the model:
  \<^item> torch float tensors and Python floats are exact reals (\<^typ>\<open>real\<close>); rounding is not
    modelled. Loss scalars are \<open>tfloat\<close>, which adds the IEEE values NaN and the infinities.
  \<^item> An exception is a value \<open>Inl e\<close> of \<open>error + 'a\<close>.
  \<^item> The sentence-transformer model, \<open>nn.BCEWithLogitsLoss\<close>, autograd and the Adam optimizer
    are libraries outside the notebook; they are parameters of the model.
\<close>

subsection \<open>Errors, vectors and matrices\<close>

datatype error = RuntimeError | AttributeError

type_synonym vec = "real list"

text \<open>A two-dimensional tensor: always rectangular, as in torch.\<close>

record mat =
  nrows :: nat
  ncols :: nat
  entry :: "nat \<Rightarrow> nat \<Rightarrow> real"

text \<open>\<^verbatim>\<open>a @ b\<close> on two one-dimensional tensors; torch raises RuntimeError on a size mismatch.\<close>

definition matmul_vv :: "vec \<Rightarrow> vec \<Rightarrow> error + real" where
  "matmul_vv a b =
     (if length a = length b then Inr (sum_list (map2 (*) a b)) else Inl RuntimeError)"

text \<open>\<^verbatim>\<open>a @ P\<close> with \<open>a\<close> one-dimensional and \<open>P\<close> two-dimensional: the row vector times the matrix.\<close>

definition matmul_vm :: "vec \<Rightarrow> mat \<Rightarrow> error + vec" where
  "matmul_vm a P =
     (if length a = nrows P
      then Inr (map (\<lambda>j. sum_list (map (\<lambda>i. a ! i * entry P i j) [0..<nrows P])) [0..<ncols P])
      else Inl RuntimeError)"

definition identity :: "nat \<Rightarrow> mat" where
  "identity D = \<lparr>nrows = D, ncols = D, entry = (\<lambda>i j. if i = j then 1 else 0)\<rparr>"

subsection \<open>Embedding\<close>

text \<open>
  \<^verbatim>\<open>
  model = SentenceTransformer("all-MiniLM-L12-v2")
  def embed(text):
      embedding = model.encode([text])[0]
      return torch.tensor(embedding, dtype=torch.float32)
  \<close>
  The model is a deterministic function \<open>encode\<close>; \<open>calls\<close> logs every invocation of
  \<^verbatim>\<open>model.encode\<close>, so that the number of provider calls can be observed.
\<close>

record provider =
  encode :: "string \<Rightarrow> vec"
  calls :: "string list"

definition embed :: "provider \<Rightarrow> string \<Rightarrow> vec \<times> provider" where
  "embed model text = (encode model text, model\<lparr>calls := calls model @ [text]\<rparr>)"

subsection \<open>Similarity\<close>

text \<open>
  \<^verbatim>\<open>
  def similarity(x_i, x_c):
      a = embed(x_i)
      b = embed(x_c)
      return a @ b

  def similarity_with_projection(x_i, x_c, P):
      a = embed(x_i)
      b = embed(x_c)
      return (a @ P) @ b
  \<close>
  The claims about these functions read only the returned score, so the call log of the
  provider is dropped here.
\<close>

definition similarity :: "provider \<Rightarrow> string \<Rightarrow> string \<Rightarrow> error + real" where
  "similarity model x_i x_c =
     (let a = fst (embed model x_i);
          b = fst (embed model x_c)
      in matmul_vv a b)"

definition similarity_with_projection :: "provider \<Rightarrow> string \<Rightarrow> string \<Rightarrow> mat \<Rightarrow> error + real" where
  "similarity_with_projection model x_i x_c P =
     (let a = fst (embed model x_i);
          b = fst (embed model x_c)
      in case matmul_vm a P of Inl e \<Rightarrow> Inl e | Inr aP \<Rightarrow> matmul_vv aP b)"

subsection \<open>Dataset and example pairs\<close>

record Example =
  user_input :: string
  snippets :: "string list"

type_synonym pair = "string \<times> string \<times> nat"

definition threshold :: real where
  "threshold = 7 / 10"

text \<open>
  \<^verbatim>\<open>
  for example in dataset:
      for snippet in example.snippets:
          similarity_score = similarity(example.user_input, snippet).item()
          if similarity_score > threshold:
              example_pairs.append((example.user_input, snippet, 1))
          else:
              example_pairs.append((example.user_input, snippet, 0))
  \<close>
  \<open>label_snippets\<close> is the inner loop, \<open>example_pairs\<close> the outer one.
\<close>

fun label_snippets :: "provider \<Rightarrow> string \<Rightarrow> string list \<Rightarrow> error + pair list" where
  "label_snippets model q [] = Inr []"
| "label_snippets model q (snippet # rest) =
     (case similarity model q snippet of
        Inl e \<Rightarrow> Inl e
      | Inr similarity_score \<Rightarrow>
          (case label_snippets model q rest of
             Inl e \<Rightarrow> Inl e
           | Inr ps \<Rightarrow> Inr ((q, snippet, if similarity_score > threshold then 1 else 0) # ps)))"

fun example_pairs :: "provider \<Rightarrow> Example list \<Rightarrow> error + pair list" where
  "example_pairs model [] = Inr []"
| "example_pairs model (example # rest) =
     (case label_snippets model (user_input example) (snippets example) of
        Inl e \<Rightarrow> Inl e
      | Inr ps \<Rightarrow>
          (case example_pairs model rest of
             Inl e \<Rightarrow> Inl e
           | Inr qs \<Rightarrow> Inr (ps @ qs)))"

subsection \<open>Retrieval\<close>

text \<open>
  \<^verbatim>\<open>
  all_snippets = []
  for example in dataset:
      for snippet in example.snippets:
          all_snippets.append(snippet)

  def retrieve_relevant_snippets(user_input: str):
      user_embedding = embed(user_input)
      projected_user_embedding = user_embedding @ P
      similarities = []
      for snippet in all_snippets:
          snippet_embedding = embed(snippet)
          similarity = (projected_user_embedding @ snippet_embedding).item()
          similarities.append((snippet, similarity))
      return similarities
  \<close>
  The globals \<open>P\<close> and \<open>all_snippets\<close> are arguments of the model.
\<close>

definition all_snippets :: "Example list \<Rightarrow> string list" where
  "all_snippets dataset = concat (map snippets dataset)"

fun score_snippets :: "provider \<Rightarrow> vec \<Rightarrow> string list \<Rightarrow> error + (string \<times> real) list" where
  "score_snippets model projected_user_embedding [] = Inr []"
| "score_snippets model projected_user_embedding (snippet # rest) =
     (let snippet_embedding = fst (embed model snippet)
      in case matmul_vv projected_user_embedding snippet_embedding of
           Inl e \<Rightarrow> Inl e
         | Inr sim \<Rightarrow>
             (case score_snippets model projected_user_embedding rest of
                Inl e \<Rightarrow> Inl e
              | Inr similarities \<Rightarrow> Inr ((snippet, sim) # similarities)))"

definition retrieve_relevant_snippets ::
  "provider \<Rightarrow> mat \<Rightarrow> string list \<Rightarrow> string \<Rightarrow> error + (string \<times> real) list" where
  "retrieve_relevant_snippets model P snips query =
     (let user_embedding = fst (embed model query)
      in case matmul_vm user_embedding P of
           Inl e \<Rightarrow> Inl e
         | Inr projected_user_embedding \<Rightarrow> score_snippets model projected_user_embedding snips)"

text \<open>A ranking in descending order of score, as the consumer of the result expects it.\<close>

definition sorted_desc :: "(string \<times> real) list \<Rightarrow> bool" where
  "sorted_desc r = sorted_wrt (\<lambda>x y. snd x \<ge> snd y) r"

subsection \<open>Evaluation\<close>

text \<open>
  \<^verbatim>\<open>
  def average_precision(relevant_items, retrieved_items):
      relevant_set = set(relevant_items)
      precision_sum = 0
      relevant_count = 0
      for i, (item, _) in enumerate(retrieved_items, 1):
          if item in relevant_set:
              relevant_count += 1
              precision_sum += relevant_count / i
      return precision_sum / len(relevant_items) if relevant_items else 0
  \<close>
  \<open>ap_loop\<close> is the loop, with the position \<open>i\<close> and the two accumulators as arguments.
\<close>

fun ap_loop :: "string set \<Rightarrow> (string \<times> real) list \<Rightarrow> nat \<Rightarrow> nat \<Rightarrow> real \<Rightarrow> real" where
  "ap_loop relevant_set [] i relevant_count precision_sum = precision_sum"
| "ap_loop relevant_set ((item, score) # rest) i relevant_count precision_sum =
     (if item \<in> relevant_set
      then ap_loop relevant_set rest (i + 1) (relevant_count + 1)
             (precision_sum + real (relevant_count + 1) / real i)
      else ap_loop relevant_set rest (i + 1) relevant_count precision_sum)"

definition average_precision :: "string list \<Rightarrow> (string \<times> real) list \<Rightarrow> real" where
  "average_precision relevant_items retrieved_items =
     (let relevant_set = set relevant_items;
          precision_sum = ap_loop relevant_set retrieved_items 1 0 0
      in if relevant_items \<noteq> [] then precision_sum / real (length relevant_items) else 0)"

text \<open>
  Python's \<^verbatim>\<open>f"{x:.4f}"\<close>: the sign, the integer part, a point and four decimals, rounded
  half to even.
\<close>

definition digit_char :: "nat \<Rightarrow> char" where
  "digit_char d = ''0123456789'' ! (d mod 10)"

fun nat_str :: "nat \<Rightarrow> string" where
  "nat_str n = (if n < 10 then [digit_char n] else nat_str (n div 10) @ [digit_char (n mod 10)])"

declare nat_str.simps [simp del]

definition round_half_even :: "real \<Rightarrow> int" where
  "round_half_even x =
     (let f = \<lfloor>x\<rfloor>; d = x - of_int f
      in if d < 1 / 2 then f else if d > 1 / 2 then f + 1 else if even f then f else f + 1)"

definition format_4f :: "real \<Rightarrow> string" where
  "format_4f x =
     (let n = nat (round_half_even (\<bar>x\<bar> * 10000))
      in (if x < 0 then ''-'' else []) @ nat_str (n div 10000) @ ''.'' @
         [digit_char (n div 1000), digit_char (n div 100), digit_char (n div 10), digit_char n])"

text \<open>What a Python function hands back: a number or a string.\<close>

datatype pyval = PyNum real | PyStr string

text \<open>
  \<^verbatim>\<open>
  def evaluate_retrieval_strategy(retrieval_strategy):
      total_ap = 0
      num_queries = 0
      for example in dataset:
          retrieved = retrieval_strategy(example.user_input)
          ap = average_precision(example.snippets, retrieved)
          total_ap += ap
          num_queries += 1
      map_score = total_ap / num_queries if num_queries > 0 else 0
      return f"Mean Average Precision (MAP): {map_score:.4f}"
  \<close>
\<close>

fun eval_loop ::
  "(string \<Rightarrow> error + (string \<times> real) list) \<Rightarrow> Example list \<Rightarrow> real \<Rightarrow> nat \<Rightarrow> error + (real \<times> nat)" where
  "eval_loop retrieval_strategy [] total_ap num_queries = Inr (total_ap, num_queries)"
| "eval_loop retrieval_strategy (example # rest) total_ap num_queries =
     (case retrieval_strategy (user_input example) of
        Inl e \<Rightarrow> Inl e
      | Inr retrieved \<Rightarrow>
          (let ap = average_precision (snippets example) retrieved
           in eval_loop retrieval_strategy rest (total_ap + ap) (num_queries + 1)))"

definition evaluate_retrieval_strategy ::
  "(string \<Rightarrow> error + (string \<times> real) list) \<Rightarrow> Example list \<Rightarrow> error + pyval" where
  "evaluate_retrieval_strategy retrieval_strategy dataset =
     (case eval_loop retrieval_strategy dataset 0 0 of
        Inl e \<Rightarrow> Inl e
      | Inr (total_ap, num_queries) \<Rightarrow>
          (let map_score = (if num_queries > 0 then total_ap / real num_queries else 0)
           in Inr (PyStr (''Mean Average Precision (MAP): '' @ format_4f map_score))))"

subsection \<open>Training loop\<close>

text \<open>
  A scalar as torch and Python hold it: a finite value, an infinity or NaN. Addition and
  division by a positive count follow IEEE 754, rounding aside.
\<close>

datatype tfloat = Fin real | PInf | NInf | NaN

fun tadd :: "tfloat \<Rightarrow> tfloat \<Rightarrow> tfloat" where
  "tadd NaN y = NaN"
| "tadd x NaN = NaN"
| "tadd PInf NInf = NaN"
| "tadd NInf PInf = NaN"
| "tadd PInf y = PInf"
| "tadd x PInf = PInf"
| "tadd NInf y = NInf"
| "tadd x NInf = NInf"
| "tadd (Fin x) (Fin y) = Fin (x + y)"

fun tdiv :: "tfloat \<Rightarrow> nat \<Rightarrow> tfloat" where
  "tdiv (Fin x) n = Fin (x / real n)"
| "tdiv PInf n = PInf"
| "tdiv NInf n = NInf"
| "tdiv NaN n = NaN"

text \<open>
  The parts of torch the loop calls: the loss \<^verbatim>\<open>nn.BCEWithLogitsLoss()\<close>, the gradient
  with respect to \<open>P\<close> that \<^verbatim>\<open>loss.backward()\<close> computes for one pair (from \<open>P\<close>, the
  two embeddings and the label), the addition of gradients, and one step of Adam, which
  gets the optimizer state, \<open>P\<close> and \<^verbatim>\<open>P.grad\<close>.
\<close>

record ('g, 'o) torch =
  bce_with_logits :: "real \<Rightarrow> nat \<Rightarrow> tfloat"
  autograd :: "mat \<Rightarrow> vec \<Rightarrow> vec \<Rightarrow> nat \<Rightarrow> 'g"
  grad_add :: "'g \<Rightarrow> 'g \<Rightarrow> 'g"
  adam_step :: "'o \<Rightarrow> mat \<Rightarrow> 'g option \<Rightarrow> 'o \<times> mat"

text \<open>
  \<^verbatim>\<open>
  def loss_func(predictions, targets):
      return nn.BCEWithLogitsLoss()(predictions, targets)
  \<close>
\<close>

definition loss_func :: "('g, 'o) torch \<Rightarrow> real \<Rightarrow> nat \<Rightarrow> tfloat" where
  "loss_func tc predictions targets = bce_with_logits tc predictions targets"

text \<open>The calls that change the gradient or the parameters, in the order they are made.\<close>

datatype event = ZeroGrad | Backward pair | OptimizerStep

text \<open>
  The state of the training cell: the matrix \<open>P\<close>, its accumulated gradient \<^verbatim>\<open>P.grad\<close>
  (\<open>None\<close> after \<^verbatim>\<open>zero_grad\<close>), the state of the optimizer, the lines printed
  (epoch and validation loss) and the log of calls.
\<close>

record ('g, 'o) trainer =
  Pmat :: mat
  P_grad :: "'g option"
  opt_state :: 'o
  printed :: "(nat \<times> tfloat) list"
  api_calls :: "event list"

definition optimizer_zero_grad :: "('g, 'o) trainer \<Rightarrow> ('g, 'o) trainer" where
  "optimizer_zero_grad st = st\<lparr>P_grad := None, api_calls := api_calls st @ [ZeroGrad]\<rparr>"

definition optimizer_step :: "('g, 'o) torch \<Rightarrow> ('g, 'o) trainer \<Rightarrow> ('g, 'o) trainer" where
  "optimizer_step tc st =
     (case adam_step tc (opt_state st) (Pmat st) (P_grad st) of
        (opt', P') \<Rightarrow> st\<lparr>Pmat := P', opt_state := opt', api_calls := api_calls st @ [OptimizerStep]\<rparr>)"

text \<open>
  \<^verbatim>\<open>
  for epoch in range(num_epochs):
      optimizer.zero_grad()
      for pair in train_pairs:
          x_i, x_c, y = pair
          prediction = similarity_with_projection(x_i, x_c, P)
          y = torch.tensor([y], dtype=torch.float32)
          loss = loss_func(prediction.unsqueeze(0), y)
          loss.backward()
      optimizer.step()
      val_loss = 0
      for pair in val_pairs:
          x_i, x_c, y = pair
          prediction = similarity_with_projection(x_i, x_c, P)
          y = torch.tensor([y], dtype=torch.float32)
          val_loss += loss_func(prediction.unsqueeze(0), y)
      print(f"Epoch {epoch}/{num_epochs}: validation loss: {val_loss.item() / len(val_pairs)}")
  \<close>
  \<open>train_pair\<close> is the body of the first inner loop: \<^verbatim>\<open>loss.backward()\<close> adds the pair's
  gradient to \<^verbatim>\<open>P.grad\<close>.
\<close>

definition train_pair ::
  "('g, 'o) torch \<Rightarrow> provider \<Rightarrow> ('g, 'o) trainer \<Rightarrow> pair \<Rightarrow> error + ('g, 'o) trainer" where
  "train_pair tc model st pair =
     (case pair of (x_i, x_c, y) \<Rightarrow>
        (case similarity_with_projection model x_i x_c (Pmat st) of
           Inl e \<Rightarrow> Inl e
         | Inr prediction \<Rightarrow>
             (let loss = loss_func tc prediction y;
                  g = autograd tc (Pmat st) (fst (embed model x_i)) (fst (embed model x_c)) y
              in Inr (st\<lparr>P_grad := Some (case P_grad st of None \<Rightarrow> g | Some g0 \<Rightarrow> grad_add tc g0 g),
                         api_calls := api_calls st @ [Backward pair]\<rparr>))))"

fun train_pairs_loop ::
  "('g, 'o) torch \<Rightarrow> provider \<Rightarrow> ('g, 'o) trainer \<Rightarrow> pair list \<Rightarrow> error + ('g, 'o) trainer" where
  "train_pairs_loop tc model st [] = Inr st"
| "train_pairs_loop tc model st (pair # rest) =
     (case train_pair tc model st pair of
        Inl e \<Rightarrow> Inl e
      | Inr st' \<Rightarrow> train_pairs_loop tc model st' rest)"

text \<open>The first half of an epoch: reset, accumulate over the training pairs, one Adam step.\<close>

definition train_phase ::
  "('g, 'o) torch \<Rightarrow> provider \<Rightarrow> pair list \<Rightarrow> ('g, 'o) trainer \<Rightarrow> error + ('g, 'o) trainer" where
  "train_phase tc model train_pairs st =
     (case train_pairs_loop tc model (optimizer_zero_grad st) train_pairs of
        Inl e \<Rightarrow> Inl e
      | Inr st' \<Rightarrow> Inr (optimizer_step tc st'))"

text \<open>
  The second inner loop. \<open>val_loss\<close> starts as the Python integer 0 (\<open>None\<close> here) and
  becomes a tensor with the first pair added; \<open>0 + x\<close> is \<open>x\<close>.
\<close>

fun val_loop ::
  "('g, 'o) torch \<Rightarrow> provider \<Rightarrow> mat \<Rightarrow> tfloat option \<Rightarrow> pair list \<Rightarrow> error + tfloat option" where
  "val_loop tc model P val_loss [] = Inr val_loss"
| "val_loop tc model P val_loss ((x_i, x_c, y) # rest) =
     (case similarity_with_projection model x_i x_c P of
        Inl e \<Rightarrow> Inl e
      | Inr prediction \<Rightarrow>
          (let l = loss_func tc prediction y
           in val_loop tc model P (Some (case val_loss of None \<Rightarrow> l | Some v \<Rightarrow> tadd v l)) rest))"

text \<open>
  The second half of an epoch. \<^verbatim>\<open>val_loss.item()\<close> on the integer 0 (no validation pair)
  raises AttributeError.
\<close>

definition validation_phase ::
  "('g, 'o) torch \<Rightarrow> provider \<Rightarrow> pair list \<Rightarrow> nat \<Rightarrow> ('g, 'o) trainer \<Rightarrow> error + ('g, 'o) trainer" where
  "validation_phase tc model val_pairs epoch st =
     (case val_loop tc model (Pmat st) None val_pairs of
        Inl e \<Rightarrow> Inl e
      | Inr None \<Rightarrow> Inl AttributeError
      | Inr (Some val_loss) \<Rightarrow>
          Inr (st\<lparr>printed := printed st @ [(epoch, tdiv val_loss (length val_pairs))]\<rparr>))"

definition run_epoch ::
  "('g, 'o) torch \<Rightarrow> provider \<Rightarrow> pair list \<Rightarrow> pair list \<Rightarrow> nat \<Rightarrow> ('g, 'o) trainer
     \<Rightarrow> error + ('g, 'o) trainer" where
  "run_epoch tc model train_pairs val_pairs epoch st =
     (case train_phase tc model train_pairs st of
        Inl e \<Rightarrow> Inl e
      | Inr st' \<Rightarrow> validation_phase tc model val_pairs epoch st')"

fun epochs_loop ::
  "('g, 'o) torch \<Rightarrow> provider \<Rightarrow> pair list \<Rightarrow> pair list \<Rightarrow> nat list \<Rightarrow> ('g, 'o) trainer
     \<Rightarrow> error + ('g, 'o) trainer" where
  "epochs_loop tc model train_pairs val_pairs [] st = Inr st"
| "epochs_loop tc model train_pairs val_pairs (epoch # rest) st =
     (case run_epoch tc model train_pairs val_pairs epoch st of
        Inl e \<Rightarrow> Inl e
      | Inr st' \<Rightarrow> epochs_loop tc model train_pairs val_pairs rest st')"

definition training_loop ::
  "('g, 'o) torch \<Rightarrow> provider \<Rightarrow> pair list \<Rightarrow> pair list \<Rightarrow> nat \<Rightarrow> ('g, 'o) trainer
     \<Rightarrow> error + ('g, 'o) trainer" where
  "training_loop tc model train_pairs val_pairs num_epochs st =
     epochs_loop tc model train_pairs val_pairs [0..<num_epochs] st"

text \<open>
  The gradient accumulated from a list of per-pair gradients, starting from a reset
  \<^verbatim>\<open>P.grad\<close>: their sum, in order.
\<close>

fun accumulate :: "('g, 'o) torch \<Rightarrow> 'g option \<Rightarrow> 'g list \<Rightarrow> 'g option" where
  "accumulate tc acc [] = acc"
| "accumulate tc acc (g # gs) =
     accumulate tc (Some (case acc of None \<Rightarrow> g | Some g0 \<Rightarrow> grad_add tc g0 g)) gs"

definition pair_grad :: "('g, 'o) torch \<Rightarrow> provider \<Rightarrow> mat \<Rightarrow> pair \<Rightarrow> 'g" where
  "pair_grad tc model P pair =
     (case pair of (x_i, x_c, y) \<Rightarrow>
        autograd tc P (fst (embed model x_i)) (fst (embed model x_c)) y)"

text \<open>
  The mean of a list of losses, as the specification words it: their sum over their number.
\<close>

definition mean_loss :: "tfloat list \<Rightarrow> tfloat" where
  "mean_loss ls = tdiv (foldl tadd (Fin 0) ls) (length ls)"

text \<open>The loss of one pair under the matrix \<open>P\<close>; the pair's score must be defined.\<close>

definition pair_loss :: "('g, 'o) torch \<Rightarrow> provider \<Rightarrow> mat \<Rightarrow> pair \<Rightarrow> tfloat" where
  "pair_loss tc model P pair =
     (case pair of (x_i, x_c, y) \<Rightarrow>
        (case similarity_with_projection model x_i x_c P of
           Inl e \<Rightarrow> NaN
         | Inr prediction \<Rightarrow> loss_func tc prediction y))"

text \<open>The shapes fit: \<open>P\<close> is \<open>D \<times> D\<close> and the texts of the pairs embed to \<open>D\<close> components.\<close>

definition shapes_ok :: "provider \<Rightarrow> nat \<Rightarrow> pair list \<Rightarrow> bool" where
  "shapes_ok model D pairs =
     list_all (\<lambda>(x_i, x_c, y). length (encode model x_i) = D \<and> length (encode model x_c) = D) pairs"

definition square :: "nat \<Rightarrow> mat \<Rightarrow> bool" where
  "square D P = (nrows P = D \<and> ncols P = D)"

section \<open>Properties of the evaluation\<close>

lemma ap_loop_scores:
  "map fst r1 = map fst r2 \<Longrightarrow> ap_loop rel r1 i c s = ap_loop rel r2 i c s"
proof (induction r1 arbitrary: r2 i c s)
  case Nil
  then show ?case by simp
next
  case (Cons x r1)
  then obtain y r2' where r2: "r2 = y # r2'" by (cases r2) auto
  with Cons.prems have h: "fst x = fst y" "map fst r1 = map fst r2'" by auto
  obtain a b where x: "x = (a, b)" by (cases x)
  obtain a' b' where y: "y = (a', b')" by (cases y)
  from h x y have aa: "a' = a" by simp
  show ?case unfolding r2 x y aa
    using Cons.IH [OF h(2)] by simp
qed

lemma ap_loop_bounds:
  "c < i \<Longrightarrow> s \<le> ap_loop rel xs i c s \<and>
     ap_loop rel xs i c s \<le> s + real (length (filter (\<lambda>x. fst x \<in> rel) xs))"
proof (induction xs arbitrary: i c s)
  case Nil
  then show ?case by simp
next
  case (Cons x xs)
  obtain a b where x: "x = (a, b)" by (cases x)
  show ?case
  proof (cases "a \<in> rel")
    case True
    define t where "t = real (c + 1) / real i"
    have ci: "c + 1 < i + 1" using Cons.prems by simp
    have t0: "0 \<le> t" unfolding t_def by simp
    have t1: "t \<le> 1" unfolding t_def using Cons.prems by simp
    have step: "ap_loop rel (x # xs) i c s = ap_loop rel xs (i + 1) (c + 1) (s + t)"
      unfolding t_def x using True by simp
    have len: "real (length (filter (\<lambda>x. fst x \<in> rel) (x # xs)))
        = 1 + real (length (filter (\<lambda>x. fst x \<in> rel) xs))"
      using True x by simp
    from Cons.IH [OF ci, of "s + t"] t0 t1
    show ?thesis unfolding step len by linarith
  next
    case False
    have ci: "c < i + 1" using Cons.prems by simp
    from Cons.IH [OF ci, of s] False x show ?thesis by simp
  qed
qed

lemma hits_le:
  assumes "distinct (map fst xs)"
  shows "length (filter (\<lambda>x. fst x \<in> set rel) xs) \<le> length rel"
proof -
  have "length (filter (\<lambda>x. fst x \<in> set rel) xs) = length (filter (\<lambda>a. a \<in> set rel) (map fst xs))"
    by (simp add: filter_map comp_def)
  also have "\<dots> = card (set (filter (\<lambda>a. a \<in> set rel) (map fst xs)))"
    using distinct_card [OF distinct_filter [OF assms]] by simp
  also have "\<dots> \<le> card (set rel)"
    by (rule card_mono) auto
  also have "\<dots> \<le> length rel" by (rule card_length)
  finally show ?thesis .
qed

lemma ap_loop_all_hits:
  "\<forall>x\<in>set xs. fst x \<in> rel \<Longrightarrow> i = c + 1 \<Longrightarrow>
   ap_loop rel (xs @ ys) i c s = ap_loop rel ys (i + length xs) (c + length xs) (s + real (length xs))"
proof (induction xs arbitrary: i c s)
  case Nil
  then show ?case by simp
next
  case (Cons x xs)
  obtain a b where x: "x = (a, b)" by (cases x)
  have a: "a \<in> rel" using Cons.prems x by simp
  have r: "\<forall>x\<in>set xs. fst x \<in> rel" using Cons.prems by simp
  have one: "real (c + 1) / real i = 1" using Cons.prems by simp
  show ?case using Cons.IH [OF r, of "i + 1" "c + 1" "s + 1"] Cons.prems(2) a x one
    by (simp add: add.assoc)
qed

lemma ap_loop_no_hits:
  "\<forall>x\<in>set ys. fst x \<notin> rel \<Longrightarrow> ap_loop rel ys i c s = s"
  by (induction ys arbitrary: i) auto

lemma ap_in_unit_interval:
  assumes d: "distinct (map fst retrieved)"
  shows "0 \<le> average_precision relevant retrieved \<and> average_precision relevant retrieved \<le> 1"
proof -
  have b: "0 \<le> ap_loop (set relevant) retrieved 1 0 0 \<and>
        ap_loop (set relevant) retrieved 1 0 0
          \<le> 0 + real (length (filter (\<lambda>x. fst x \<in> set relevant) retrieved))"
    by (rule ap_loop_bounds) simp
  with hits_le [OF d, of relevant]
  have u: "ap_loop (set relevant) retrieved 1 0 0 \<le> real (length relevant)" by linarith
  show ?thesis
  proof (cases "relevant = []")
    case True
    then show ?thesis by (simp add: average_precision_def)
  next
    case False
    then have "0 < real (length relevant)" by simp
    with b u False show ?thesis
      by (simp add: average_precision_def Let_def divide_le_eq)
  qed
qed

lemma ap_perfect_ranking:
  assumes ne: "relevant \<noteq> []" and dr: "distinct relevant" and dp: "distinct (map fst pre)"
    and eq: "set (map fst pre) = set relevant"
    and post: "\<forall>x\<in>set post. fst x \<notin> set relevant"
  shows "average_precision relevant (pre @ post) = 1"
proof -
  have allhit: "\<forall>x\<in>set pre. fst x \<in> set relevant" using eq by auto
  have "length pre = card (set (map fst pre))" using distinct_card [OF dp] by simp
  also have "\<dots> = length relevant" using eq dr distinct_card by metis
  finally have len: "length pre = length relevant" .
  have "ap_loop (set relevant) (pre @ post) 1 0 0 = real (length pre)"
    using ap_loop_all_hits [OF allhit, of 1 0 post 0] ap_loop_no_hits [OF post] by simp
  with ne len show ?thesis
    by (simp add: average_precision_def)
qed

text \<open>
  C10. \<open>average_precision\<close> reads only the order of the retrieved passages and whether each
  is in the relevant set: two retrieved lists with the same passages in the same order give
  the same result, whatever scores are attached.
\<close>

theorem average_precision_ignores_scores:
  "map fst retrieved1 = map fst retrieved2 \<Longrightarrow>
   average_precision relevant retrieved1 = average_precision relevant retrieved2"
  by (simp add: average_precision_def ap_loop_scores [of retrieved1 retrieved2])

theorem average_precision_ignores_scores_witness:
  "map fst [(''a'', 9 :: real), (''b'', 1)] = map fst [(''a'', 0 :: real), (''b'', 5)] \<and>
   average_precision [''b''] [(''a'', 9), (''b'', 1)] = average_precision [''b''] [(''a'', 0), (''b'', 5)] \<and>
   average_precision [''b''] [(''a'', 9), (''b'', 1)] = 1 / 2"
  using average_precision_ignores_scores
    [of "[(''a'', 9), (''b'', 1)]" "[(''a'', 0), (''b'', 5)]" "[''b'']"]
  by (simp add: average_precision_def)

text \<open>
  C6, as stated, fails: a passage that occurs twice in the ranked list is counted twice, and
  the result leaves the unit interval; a relevant list with a repeated item keeps a perfect
  ranking below 1.
\<close>

theorem average_precision_counterexample:
  "average_precision [''a''] [(''a'', 1), (''a'', 1 / 2)] = 2 \<and>
   average_precision [''a'', ''a''] [(''a'', 1)] = 1 / 2"
  by (simp add: average_precision_def)

text \<open>
  C6, amended. When no passage occurs twice in the ranked list, \<open>average_precision\<close> is in
  \<open>[0,1]\<close>. It is 0 when the relevant list is empty. It is exactly 1 when the relevant
  list is not empty and has no repeated item, and the ranked list consists of the relevant
  items, each once, followed by irrelevant items only.
\<close>

theorem average_precision_bounds:
  "(distinct (map fst retrieved) \<longrightarrow>
      0 \<le> average_precision relevant retrieved \<and> average_precision relevant retrieved \<le> 1) \<and>
   average_precision [] retrieved = 0 \<and>
   (relevant \<noteq> [] \<and> distinct relevant \<and> distinct (map fst pre) \<and>
    set (map fst pre) = set relevant \<and> (\<forall>x\<in>set post. fst x \<notin> set relevant) \<longrightarrow>
      average_precision relevant (pre @ post) = 1)"
proof (intro conjI impI)
  show "average_precision [] retrieved = 0" by (simp add: average_precision_def)
qed (use ap_in_unit_interval ap_perfect_ranking in blast)+

theorem average_precision_bounds_witness:
  "distinct (map fst [(''a'', 1 :: real), (''b'', 0)]) \<and>
   0 \<le> average_precision [''b''] [(''a'', 1), (''b'', 0)] \<and>
   average_precision [''b''] [(''a'', 1), (''b'', 0)] \<le> 1 \<and>
   average_precision [''b''] [(''a'', 1), (''b'', 0)] = 1 / 2 \<and>
   average_precision [''a'', ''c''] ([(''c'', 1), (''a'', 1 / 2)] @ [(''b'', 0)]) = 1"
  using average_precision_bounds
    [of "[(''a'', 1), (''b'', 0)]" "[''b'']" ]
    average_precision_bounds
    [of "[]" "[''a'', ''c'']" "[(''c'', 1), (''a'', 1 / 2)]" "[(''b'', 0)]"]
  by (simp add: average_precision_def)

lemma eval_loop_eq:
  assumes "\<And>ex. ex \<in> set dataset \<Longrightarrow> strategy (user_input ex) = Inr (ranking (user_input ex))"
  shows "eval_loop strategy dataset total_ap n =
     Inr (total_ap + sum_list (map (\<lambda>ex. average_precision (snippets ex) (ranking (user_input ex))) dataset),
          n + length dataset)"
  using assms by (induction dataset arbitrary: total_ap n) (simp_all add: add.assoc)

text \<open>
  C3, as stated, fails: \<open>evaluate_retrieval_strategy\<close> returns a string, not a number. On the
  empty dataset it returns the text with \<open>0.0000\<close> in it, not the number 0.
\<close>

theorem evaluate_retrieval_strategy_counterexample:
  "evaluate_retrieval_strategy (\<lambda>q. Inr []) [] = Inr (PyStr ''Mean Average Precision (MAP): 0.0000'') \<and>
   evaluate_retrieval_strategy (\<lambda>q. Inr []) [] \<noteq> Inr (PyNum 0)"
  by (simp add: evaluate_retrieval_strategy_def format_4f_def round_half_even_def
      nat_str.simps [of 0] digit_char_def)

text \<open>
  C3, amended. When the retrieval strategy answers every query of the dataset,
  \<open>evaluate_retrieval_strategy\<close> returns the string \<open>Mean Average Precision (MAP): \<close>
  followed by the map score with four decimals, where the map score is the arithmetic mean
  of the average precisions of all examples, and 0 for the empty dataset; the empty dataset
  raises no error.
\<close>

theorem evaluate_retrieval_strategy_string:
  assumes "\<And>ex. ex \<in> set dataset \<Longrightarrow> strategy (user_input ex) = Inr (ranking (user_input ex))"
  shows "evaluate_retrieval_strategy strategy dataset =
     Inr (PyStr (''Mean Average Precision (MAP): '' @
        format_4f (if dataset = [] then 0
                   else sum_list (map (\<lambda>ex. average_precision (snippets ex) (ranking (user_input ex))) dataset)
                        / real (length dataset))))"
proof -
  have e: "eval_loop strategy dataset 0 0 =
     Inr (0 + sum_list (map (\<lambda>ex. average_precision (snippets ex) (ranking (user_input ex))) dataset),
          0 + length dataset)"
    by (rule eval_loop_eq) (rule assms)
  show ?thesis
    by (cases "dataset = []") (simp_all add: evaluate_retrieval_strategy_def e)
qed

theorem evaluate_retrieval_strategy_string_witness:
  "evaluate_retrieval_strategy (\<lambda>q. Inr [(''a'', 1), (''b'', 0)])
     [\<lparr>user_input = ''q1'', snippets = [''a'']\<rparr>, \<lparr>user_input = ''q2'', snippets = [''c'']\<rparr>]
   = Inr (PyStr ''Mean Average Precision (MAP): 0.5000'')"
  using evaluate_retrieval_strategy_string
    [of "[\<lparr>user_input = ''q1'', snippets = [''a'']\<rparr>, \<lparr>user_input = ''q2'', snippets = [''c'']\<rparr>]"
        "\<lambda>q. Inr [(''a'', 1), (''b'', 0)]" "\<lambda>q. [(''a'', 1), (''b'', 0)]"]
  by (simp add: average_precision_def format_4f_def round_half_even_def
      nat_str.simps [of 0] digit_char_def)

section \<open>Properties of embedding and similarity\<close>

text \<open>
  C4, as stated, fails: nothing is cached. Two lookups of the same string invoke the
  provider twice.
\<close>

theorem embed_no_cache_counterexample:
  "calls (snd (embed (snd (embed \<lparr>encode = (\<lambda>t. [1]), calls = []\<rparr> ''a'')) ''a'')) = [''a'', ''a'']"
  by (simp add: embed_def)

text \<open>
  C4, amended. Every lookup invokes the provider exactly once and returns its vector; the
  lookup stores nothing, so a second lookup of the same string invokes the provider again
  and, the provider being deterministic, returns the same vector.
\<close>

theorem embed_calls_provider:
  "fst (embed model text) = encode model text \<and>
   calls (snd (embed model text)) = calls model @ [text] \<and>
   encode (snd (embed model text)) = encode model \<and>
   fst (embed (snd (embed model text)) text) = fst (embed model text) \<and>
   calls (snd (embed (snd (embed model text)) text)) = calls model @ [text, text]"
  by (simp add: embed_def)

theorem embed_calls_provider_witness:
  "fst (embed \<lparr>encode = (\<lambda>t. [1]), calls = [''b'']\<rparr> ''a'') = [1] \<and>
   calls (snd (embed \<lparr>encode = (\<lambda>t. [1]), calls = [''b'']\<rparr> ''a'')) = [''b'', ''a'']"
  using embed_calls_provider [of "\<lparr>encode = (\<lambda>t. [1]), calls = [''b'']\<rparr>" "''a''"]
  by simp

lemma sum_list_delta:
  "j < D \<Longrightarrow> sum_list (map (\<lambda>i. (a ! i :: real) * (if i = j then 1 else 0)) [0..<D]) = a ! j"
proof -
  assume j: "j < D"
  have "sum_list (map (\<lambda>i. a ! i * (if i = j then 1 else 0)) [0..<D])
      = (\<Sum>i = 0..<D. a ! i * (if i = j then 1 else 0))"
    by (simp add: interv_sum_list_conv_sum_set_nat)
  also have "\<dots> = (\<Sum>i \<in> {0..<D}. if j = i then a ! i else 0)"
    by (rule sum.cong) auto
  also have "\<dots> = a ! j" using j by (simp add: sum.delta)
  finally show ?thesis .
qed

lemma matmul_vm_identity: "length a = D \<Longrightarrow> matmul_vm a (identity D) = Inr a"
proof -
  assume l: "length a = D"
  have "map (\<lambda>j. sum_list (map (\<lambda>i. a ! i * (if i = j then 1 else 0)) [0..<D])) [0..<D]
      = map (\<lambda>j. a ! j) [0..<D]"
    by (rule map_cong) (simp_all add: sum_list_delta)
  also have "\<dots> = a" using l map_nth [of a] by simp
  finally show ?thesis using l by (simp add: matmul_vm_def identity_def)
qed

text \<open>
  C7. With the identity matrix of the embedding dimension as \<open>P\<close>,
  \<open>similarity_with_projection\<close> equals \<open>similarity\<close>, the plain dot product (exactly, over the
  reals), for every query and passage.
\<close>

theorem identity_projection:
  "length (encode model x_i) = D \<Longrightarrow>
   similarity_with_projection model x_i x_c (identity D) = similarity model x_i x_c"
  by (simp add: similarity_with_projection_def similarity_def embed_def matmul_vm_identity)

theorem identity_projection_witness:
  "length (encode \<lparr>encode = (\<lambda>t. if t = ''q'' then [1, 2] else [3, 4]), calls = []\<rparr> ''q'') = 2 \<and>
   similarity_with_projection \<lparr>encode = (\<lambda>t. if t = ''q'' then [1, 2] else [3, 4]), calls = []\<rparr>
      ''q'' ''c'' (identity 2) = Inr 11 \<and>
   similarity \<lparr>encode = (\<lambda>t. if t = ''q'' then [1, 2] else [3, 4]), calls = []\<rparr> ''q'' ''c'' = Inr 11"
  using identity_projection
    [of "\<lparr>encode = (\<lambda>t. if t = ''q'' then [1, 2] else [3, 4]), calls = []\<rparr>" "''q''" 2 "''c''"]
  by (simp add: similarity_def embed_def matmul_vv_def)

section \<open>Properties of the pair generator and the retriever\<close>

text \<open>
  C1 does not hold of the code. The notebook describes the dataset as (question, relevant
  code snippets) pairs and the label as 1 if the snippet is relevant to the user input,
  else 0; the loop instead labels each pair by comparing the similarity score with 0.7
  and pairs a query with its own snippets only. For one example with the query \<open>q\<close> and
  the relevant snippet \<open>s\<close>, both embedded as \<open>[0]\<close>, the score 0 is not above the
  threshold: the relevant snippet gets label 0, and no pair with a snippet that is not
  relevant is built.
\<close>

theorem example_pairs_counterexample:
  "example_pairs \<lparr>encode = (\<lambda>t. [0]), calls = []\<rparr> [\<lparr>user_input = ''q'', snippets = [''s'']\<rparr>]
     = Inr [(''q'', ''s'', 0)]"
  by (simp add: similarity_def embed_def matmul_vv_def threshold_def)

text \<open>
  C2 does not hold of the code: \<open>retrieve_relevant_snippets\<close> returns the pairs in corpus
  order and never sorts them. With the identity projection, a query embedded as \<open>[1, 0]\<close>
  and the corpus \<open>[b, a]\<close> embedded as \<open>[0, 1]\<close> and \<open>[1, 0]\<close>, the passage with score 0
  comes before the passage with score 1.
\<close>

theorem retrieve_not_sorted:
  "retrieve_relevant_snippets
      \<lparr>encode = (\<lambda>t. if t = ''b'' then [0, 1] else [1, 0]), calls = []\<rparr> (identity 2)
      [''b'', ''a''] ''q'' = Inr [(''b'', 0), (''a'', 1)] \<and>
   \<not> sorted_desc [(''b'', 0), (''a'', 1)]"
  by (simp add: retrieve_relevant_snippets_def embed_def matmul_vm_identity matmul_vv_def sorted_desc_def)

section \<open>Properties of the training loop\<close>

lemma swp_defined:
  assumes "square D P" "length (encode model x_i) = D" "length (encode model x_c) = D"
  shows "\<exists>v. similarity_with_projection model x_i x_c P = Inr v"
  using assms
  by (simp add: similarity_with_projection_def embed_def matmul_vm_def matmul_vv_def square_def)

lemma train_pair_eq:
  assumes "square D (Pmat st)" "length (encode model x_i) = D" "length (encode model x_c) = D"
  shows "train_pair tc model st (x_i, x_c, y) =
     Inr (st\<lparr>P_grad := accumulate tc (P_grad st) [pair_grad tc model (Pmat st) (x_i, x_c, y)],
             api_calls := api_calls st @ [Backward (x_i, x_c, y)]\<rparr>)"
proof -
  from swp_defined [OF assms] obtain v where "similarity_with_projection model x_i x_c (Pmat st) = Inr v" ..
  then show ?thesis by (simp add: train_pair_def pair_grad_def Let_def)
qed

lemma train_pairs_loop_eq:
  assumes "square D (Pmat st)" "shapes_ok model D pairs"
  shows "train_pairs_loop tc model st pairs =
     Inr (st\<lparr>P_grad := accumulate tc (P_grad st) (map (pair_grad tc model (Pmat st)) pairs),
             api_calls := api_calls st @ map Backward pairs\<rparr>)"
  using assms
proof (induction pairs arbitrary: st)
  case Nil
  then show ?case by simp
next
  case (Cons p pairs)
  obtain x_i x_c y where p: "p = (x_i, x_c, y)" by (cases p)
  from Cons.prems p have l: "length (encode model x_i) = D" "length (encode model x_c) = D"
    and rest: "shapes_ok model D pairs"
    by (simp_all add: shapes_ok_def)
  define st1 where "st1 = st\<lparr>P_grad := accumulate tc (P_grad st) [pair_grad tc model (Pmat st) (x_i, x_c, y)],
             api_calls := api_calls st @ [Backward (x_i, x_c, y)]\<rparr>"
  have s1: "train_pair tc model st p = Inr st1"
    unfolding p st1_def by (rule train_pair_eq [OF Cons.prems(1) l])
  have sq: "square D (Pmat st1)" using Cons.prems(1) by (simp add: st1_def)
  show ?case
    using Cons.IH [OF sq rest] s1
    by (simp add: st1_def p)
qed

lemma train_phase_eq:
  assumes "square D (Pmat st)" "shapes_ok model D train_pairs"
  shows "train_phase tc model train_pairs st =
     Inr (optimizer_step tc
       (st\<lparr>P_grad := accumulate tc None (map (pair_grad tc model (Pmat st)) train_pairs),
           api_calls := api_calls st @ ZeroGrad # map Backward train_pairs\<rparr>))"
proof -
  have sq: "square D (Pmat (optimizer_zero_grad st))"
    using assms(1) by (simp add: optimizer_zero_grad_def)
  show ?thesis
    unfolding train_phase_def train_pairs_loop_eq [OF sq assms(2)]
    by (simp add: optimizer_zero_grad_def)
qed

text \<open>
  C8. In the training half of an epoch the accumulated gradient is reset once, at the start;
  every training pair then adds its gradient, all taken at the matrix the epoch started
  with; and one optimizer step, after the last pair, gets their sum. The log of calls is
  one \<open>ZeroGrad\<close>, one \<open>Backward\<close> per pair, one \<open>OptimizerStep\<close>.
\<close>

theorem full_batch_epoch:
  assumes "square D (Pmat st)" "shapes_ok model D train_pairs"
  shows "\<exists>st'. train_phase tc model train_pairs st = Inr st' \<and>
     api_calls st' = api_calls st @ [ZeroGrad] @ map Backward train_pairs @ [OptimizerStep] \<and>
     P_grad st' = accumulate tc None (map (pair_grad tc model (Pmat st)) train_pairs) \<and>
     (opt_state st', Pmat st') = adam_step tc (opt_state st) (Pmat st) (P_grad st') \<and>
     printed st' = printed st"
  unfolding train_phase_eq [OF assms]
  by (simp add: optimizer_step_def split: prod.split)

theorem full_batch_epoch_witness:
  "square 1 (Pmat \<lparr>Pmat = identity 1, P_grad = Some (7 :: real), opt_state = 0 :: nat, printed = [], api_calls = []\<rparr>) \<and>
   shapes_ok \<lparr>encode = (\<lambda>t. [1]), calls = []\<rparr> 1 [(''q'', ''s'', 1), (''q'', ''t'', 0)] \<and>
   (\<exists>st'. train_phase
       \<lparr>bce_with_logits = (\<lambda>p y. Fin (p - real y)), autograd = (\<lambda>P a b y. real y + 1), grad_add = (+),
        adam_step = (\<lambda>os P g. (os + 1, P\<lparr>entry := (\<lambda>i j. entry P i j - (case g of None \<Rightarrow> 0 | Some x \<Rightarrow> x))\<rparr>))\<rparr>
       \<lparr>encode = (\<lambda>t. [1]), calls = []\<rparr> [(''q'', ''s'', 1), (''q'', ''t'', 0)]
       \<lparr>Pmat = identity 1, P_grad = Some 7, opt_state = 0 :: nat, printed = [], api_calls = []\<rparr> = Inr st' \<and>
     api_calls st' = [ZeroGrad, Backward (''q'', ''s'', 1), Backward (''q'', ''t'', 0), OptimizerStep] \<and>
     P_grad st' = Some 3 \<and> opt_state st' = 1 \<and> entry (Pmat st') 0 0 = - 2)"
proof -
  let ?tc = "\<lparr>bce_with_logits = (\<lambda>p y. Fin (p - real y)), autograd = (\<lambda>P a b y. real y + 1), grad_add = (+),
        adam_step = (\<lambda>os P g. (os + (1 :: nat), P\<lparr>entry := (\<lambda>i j. entry P i j - (case g of None \<Rightarrow> 0 | Some x \<Rightarrow> x))\<rparr>))\<rparr>"
  let ?model = "\<lparr>encode = (\<lambda>t. [1 :: real]), calls = []\<rparr>"
  let ?st = "\<lparr>Pmat = identity 1, P_grad = Some (7 :: real), opt_state = 0 :: nat, printed = [], api_calls = []\<rparr>"
  let ?pairs = "[(''q'', ''s'', 1 :: nat), (''q'', ''t'', 0)]"
  have sq: "square 1 (Pmat ?st)" by (simp add: square_def identity_def)
  have sh: "shapes_ok ?model 1 ?pairs" by (simp add: shapes_ok_def)
  from full_batch_epoch [OF sq sh, of ?tc] obtain st' where
    t: "train_phase ?tc ?model ?pairs ?st = Inr st'"
    and c: "api_calls st' = api_calls ?st @ [ZeroGrad] @ map Backward ?pairs @ [OptimizerStep]"
    and g: "P_grad st' = accumulate ?tc None (map (pair_grad ?tc ?model (Pmat ?st)) ?pairs)"
    and a: "(opt_state st', Pmat st') = adam_step ?tc (opt_state ?st) (Pmat ?st) (P_grad st')"
    by blast
  have g3: "P_grad st' = Some 3" using g by (simp add: pair_grad_def embed_def)
  have c4: "api_calls st' = [ZeroGrad, Backward (''q'', ''s'', 1), Backward (''q'', ''t'', 0), OptimizerStep]"
    using c by simp
  have o: "opt_state st' = 1" and e: "entry (Pmat st') 0 0 = - 2"
    using a unfolding g3 by (simp_all add: identity_def)
  from t c4 g3 o e have "\<exists>st'. train_phase ?tc ?model ?pairs ?st = Inr st' \<and>
     api_calls st' = [ZeroGrad, Backward (''q'', ''s'', 1), Backward (''q'', ''t'', 0), OptimizerStep] \<and>
     P_grad st' = Some 3 \<and> opt_state st' = 1 \<and> entry (Pmat st') 0 0 = - 2"
    by blast
  with sq sh show ?thesis by blast
qed

lemma tadd_zero: "tadd (Fin 0) l = l"
  by (cases l) simp_all

lemma val_loop_some:
  assumes "square D P" "shapes_ok model D pairs"
  shows "val_loop tc model P (Some v) pairs = Inr (Some (foldl tadd v (map (pair_loss tc model P) pairs)))"
  using assms(2)
proof (induction pairs arbitrary: v)
  case Nil
  then show ?case by simp
next
  case (Cons p pairs)
  obtain x_i x_c y where p: "p = (x_i, x_c, y)" by (cases p)
  from Cons.prems p have l: "length (encode model x_i) = D" "length (encode model x_c) = D"
    and rest: "shapes_ok model D pairs"
    by (simp_all add: shapes_ok_def)
  from swp_defined [OF assms(1) l] obtain s where s: "similarity_with_projection model x_i x_c P = Inr s" ..
  show ?case using Cons.IH [OF rest] s by (simp add: p pair_loss_def)
qed

lemma val_loop_none:
  assumes "square D P" "shapes_ok model D pairs" "pairs \<noteq> []"
  shows "val_loop tc model P None pairs = Inr (Some (foldl tadd (Fin 0) (map (pair_loss tc model P) pairs)))"
proof -
  from assms(3) obtain p rest where pr: "pairs = p # rest" by (cases pairs) auto
  obtain x_i x_c y where p: "p = (x_i, x_c, y)" by (cases p)
  from assms(2) pr p have l: "length (encode model x_i) = D" "length (encode model x_c) = D"
    and rest: "shapes_ok model D rest"
    by (simp_all add: shapes_ok_def)
  from swp_defined [OF assms(1) l] obtain s where s: "similarity_with_projection model x_i x_c P = Inr s" ..
  show ?thesis using val_loop_some [OF assms(1) rest] s
    by (simp add: pr p pair_loss_def tadd_zero)
qed

lemma validation_phase_eq:
  assumes "square D (Pmat st)" "shapes_ok model D val_pairs" "val_pairs \<noteq> []"
  shows "validation_phase tc model val_pairs epoch st =
     Inr (st\<lparr>printed := printed st @ [(epoch, mean_loss (map (pair_loss tc model (Pmat st)) val_pairs))]\<rparr>)"
  by (simp add: validation_phase_def val_loop_none [OF assms] mean_loss_def)

lemma validation_phase_empty:
  "validation_phase tc model [] epoch st = Inl AttributeError"
  by (simp add: validation_phase_def)

text \<open>
  C9. With \<open>st1\<close> the state after the epoch's optimizer step and a non-empty validation
  subset, the epoch prints the mean of the per-pair losses over the validation pairs,
  computed with the matrix of \<open>st1\<close>; the validation pairs change neither the matrix nor the
  optimizer state nor the accumulated gradient, and cause no optimizer call.
\<close>

theorem validation_loss_and_frame:
  assumes "train_phase tc model train_pairs st = Inr st1"
    and "square D (Pmat st1)" "shapes_ok model D val_pairs" "val_pairs \<noteq> []"
  shows "\<exists>st2. run_epoch tc model train_pairs val_pairs epoch st = Inr st2 \<and>
     printed st2 = printed st1 @ [(epoch, mean_loss (map (pair_loss tc model (Pmat st1)) val_pairs))] \<and>
     Pmat st2 = Pmat st1 \<and> opt_state st2 = opt_state st1 \<and> P_grad st2 = P_grad st1 \<and>
     api_calls st2 = api_calls st1"
  by (simp add: run_epoch_def assms(1) validation_phase_eq [OF assms(2-4)])

theorem validation_loss_and_frame_witness:
  "(\<exists>st2. run_epoch
       \<lparr>bce_with_logits = (\<lambda>p y. Fin (p - real y)), autograd = (\<lambda>P a b y. real y + 1), grad_add = (+),
        adam_step = (\<lambda>os P g. (os + 1, P\<lparr>entry := (\<lambda>i j. entry P i j - (case g of None \<Rightarrow> 0 | Some x \<Rightarrow> x))\<rparr>))\<rparr>
       \<lparr>encode = (\<lambda>t. [1]), calls = []\<rparr> [(''q'', ''s'', 1), (''q'', ''t'', 0)] [(''q'', ''u'', 1), (''q'', ''v'', 0)] 5
       \<lparr>Pmat = identity 1, P_grad = None, opt_state = 0 :: nat, printed = [], api_calls = []\<rparr> = Inr st2 \<and>
     printed st2 = [(5, Fin (- 5 / 2))] \<and> entry (Pmat st2) 0 0 = - 2 \<and> opt_state st2 = 1 \<and> P_grad st2 = Some 3)"
proof -
  let ?tc = "\<lparr>bce_with_logits = (\<lambda>p y. Fin (p - real y)), autograd = (\<lambda>P a b y. real y + 1), grad_add = (+),
        adam_step = (\<lambda>os P g. (os + (1 :: nat), P\<lparr>entry := (\<lambda>i j. entry P i j - (case g of None \<Rightarrow> 0 | Some x \<Rightarrow> x))\<rparr>))\<rparr>"
  let ?model = "\<lparr>encode = (\<lambda>t. [1 :: real]), calls = []\<rparr>"
  let ?st = "\<lparr>Pmat = identity 1, P_grad = None :: real option, opt_state = 0 :: nat, printed = [], api_calls = []\<rparr>"
  let ?st1 = "\<lparr>Pmat = \<lparr>nrows = 1, ncols = 1, entry = (\<lambda>i j. (if i = j then 1 else 0) - 3)\<rparr>,
        P_grad = Some (3 :: real), opt_state = 1 :: nat, printed = [],
        api_calls = [ZeroGrad, Backward (''q'', ''s'', 1), Backward (''q'', ''t'', 0), OptimizerStep]\<rparr>"
  have t: "train_phase ?tc ?model [(''q'', ''s'', 1), (''q'', ''t'', 0)] ?st = Inr ?st1"
    by (simp add: train_phase_def train_pair_def optimizer_zero_grad_def optimizer_step_def
        similarity_with_projection_def embed_def matmul_vm_def matmul_vv_def identity_def)
  have sq: "square 1 (Pmat ?st1)" by (simp add: square_def)
  have sh: "shapes_ok ?model 1 [(''q'', ''u'', 1), (''q'', ''v'', 0)]" by (simp add: shapes_ok_def)
  have ne: "[(''q'', ''u'', 1 :: nat), (''q'', ''v'', 0)] \<noteq> []" by simp
  show ?thesis
    using validation_loss_and_frame [OF t sq sh ne, of 5]
    by (auto simp add: mean_loss_def pair_loss_def loss_func_def similarity_with_projection_def
        embed_def matmul_vm_def matmul_vv_def)
qed

lemma run_epoch_ok:
  assumes sq: "square D (Pmat st)" and tr: "shapes_ok model D train_pairs"
    and va: "shapes_ok model D val_pairs" and ne: "val_pairs \<noteq> []"
    and adam: "\<And>os P g. square D P \<Longrightarrow> square D (snd (adam_step tc os P g))"
  shows "\<exists>st'. run_epoch tc model train_pairs val_pairs epoch st = Inr st' \<and>
     square D (Pmat st') \<and> map fst (printed st') = map fst (printed st) @ [epoch]"
proof -
  define st0 where "st0 = st\<lparr>P_grad := accumulate tc None (map (pair_grad tc model (Pmat st)) train_pairs),
           api_calls := api_calls st @ ZeroGrad # map Backward train_pairs\<rparr>"
  define st1 where "st1 = optimizer_step tc st0"
  have t: "train_phase tc model train_pairs st = Inr st1"
    unfolding st1_def st0_def by (rule train_phase_eq [OF sq tr])
  have "Pmat st1 = snd (adam_step tc (opt_state st0) (Pmat st0) (P_grad st0))"
    by (simp add: st1_def optimizer_step_def split: prod.split)
  moreover have "square D (Pmat st0)" using sq by (simp add: st0_def)
  ultimately have sq1: "square D (Pmat st1)" using adam by simp
  have pr: "printed st1 = printed st"
    by (simp add: st1_def st0_def optimizer_step_def split: prod.split)
  show ?thesis
    by (simp add: run_epoch_def t validation_phase_eq [OF sq1 va ne] sq1 pr)
qed

lemma epochs_loop_ok:
  assumes tr: "shapes_ok model D train_pairs"
    and va: "shapes_ok model D val_pairs" and ne: "val_pairs \<noteq> []"
    and adam: "\<And>os P g. square D P \<Longrightarrow> square D (snd (adam_step tc os P g))"
  shows "square D (Pmat st) \<Longrightarrow>
     \<exists>st'. epochs_loop tc model train_pairs val_pairs es st = Inr st' \<and>
       square D (Pmat st') \<and> map fst (printed st') = map fst (printed st) @ es"
proof (induction es arbitrary: st)
  case Nil
  then show ?case by simp
next
  case (Cons epoch es)
  from run_epoch_ok [OF Cons.prems tr va ne adam, of epoch] obtain st1 where
    r: "run_epoch tc model train_pairs val_pairs epoch st = Inr st1"
    and sq1: "square D (Pmat st1)"
    and pr: "map fst (printed st1) = map fst (printed st) @ [epoch]"
    by blast
  from Cons.IH [OF sq1] obtain st2 where
    "epochs_loop tc model train_pairs val_pairs es st1 = Inr st2"
    "square D (Pmat st2)" "map fst (printed st2) = map fst (printed st1) @ es"
    by blast
  with r pr show ?case by simp
qed

text \<open>
  C5, as stated, fails: no \<open>TrainingDivergedError\<close> exists. With a loss that is NaN for
  every pair, the loop runs both of its two epochs, prints NaN twice and ends normally.
\<close>

theorem training_diverged_counterexample:
  "map_sum id (\<lambda>st. (printed st, opt_state st))
     (training_loop
       \<lparr>bce_with_logits = (\<lambda>p y. NaN), autograd = (\<lambda>P a b y. 0 :: real), grad_add = (+),
        adam_step = (\<lambda>os P g. (os + (1 :: nat), P))\<rparr>
       \<lparr>encode = (\<lambda>t. [1]), calls = []\<rparr> [(''q'', ''s'', 1)] [(''q'', ''t'', 0)] 2
       \<lparr>Pmat = identity 1, P_grad = None, opt_state = 0, printed = [], api_calls = []\<rparr>)
   = Inr ([(0, NaN), (1, NaN)], 2)"
proof -
  have u: "[0..<2] = [0, 1]" by (simp add: upt_rec)
  show ?thesis
    by (simp add: training_loop_def u run_epoch_def train_phase_def train_pair_def
        validation_phase_def optimizer_zero_grad_def optimizer_step_def loss_func_def
        similarity_with_projection_def embed_def matmul_vm_def matmul_vv_def identity_def)
qed

text \<open>
  C5, amended. The training loop has no divergence check. When the shapes fit, the
  optimizer keeps the shape of the matrix and there is a validation pair, the loop runs
  all \<open>num_epochs\<close> epochs and prints one validation loss for each, whatever the losses
  are, NaN and the infinities included.
\<close>

theorem training_never_checks_divergence:
  assumes "square D (Pmat st)" "shapes_ok model D train_pairs" "shapes_ok model D val_pairs"
    and "val_pairs \<noteq> []"
    and "\<And>os P g. square D P \<Longrightarrow> square D (snd (adam_step tc os P g))"
  shows "\<exists>st'. training_loop tc model train_pairs val_pairs num_epochs st = Inr st' \<and>
     map fst (printed st') = map fst (printed st) @ [0..<num_epochs]"
  using epochs_loop_ok [OF assms(2-5) assms(1), of "[0..<num_epochs]"]
  unfolding training_loop_def by blast

theorem training_never_checks_divergence_witness:
  "\<exists>st'. training_loop
       \<lparr>bce_with_logits = (\<lambda>p y. PInf), autograd = (\<lambda>P a b y. 0 :: real), grad_add = (+),
        adam_step = (\<lambda>os P g. (os + (1 :: nat), P))\<rparr>
       \<lparr>encode = (\<lambda>t. [1]), calls = []\<rparr> [(''q'', ''s'', 1)] [(''q'', ''t'', 0)] 3
       \<lparr>Pmat = identity 1, P_grad = None, opt_state = 0, printed = [], api_calls = []\<rparr> = Inr st' \<and>
     map fst (printed st') = [0, 1, 2]"
proof -
  have u: "[0..<3] = [0, 1, 2]" by (simp add: upt_rec)
  show ?thesis
    using training_never_checks_divergence
      [of 1 "\<lparr>Pmat = identity 1, P_grad = None :: real option, opt_state = 0 :: nat, printed = [], api_calls = []\<rparr>"
          "\<lparr>encode = (\<lambda>t. [1]), calls = []\<rparr>" "[(''q'', ''s'', 1)]" "[(''q'', ''t'', 0)]"
          "\<lparr>bce_with_logits = (\<lambda>p y. PInf), autograd = (\<lambda>P a b y. 0 :: real), grad_add = (+),
            adam_step = (\<lambda>os P g. (os + (1 :: nat), P))\<rparr>" 3]
    by (simp add: square_def identity_def shapes_ok_def u)
qed

end
